theory Spec2Isabelle
  imports Complex_Main
begin

section \<open>The print-calibration pattern generator (calibration.py)\<close>

text \<open>
  The script loads a blank page template for each paper size, turns it to landscape,
  plans a centred grid of square markers, draws the grid on a front and on a back page
  (the back markers shifted by their index distance from the centre and labelled), and
  saves both pages as one PDF.

  Numbers. Page dimensions and indices are Python ints, modelled as \<open>int\<close>. The start
  coordinates are Python floats: every value the script computes is an integer or an
  integer plus one half of small magnitude, which binary floating point represents
  exactly, so the float arithmetic is exact and is modelled in \<open>rat\<close>.
  \<^verbatim>\<open>math.floor(a / b)\<close> on ints is modelled as \<open>a div b\<close> (both round towards minus
  infinity; they agree for every dimension an image can have), and Python's \<open>%\<close> as
  \<open>mod\<close>.
\<close>

subsection \<open>Errors and formatted integers\<close>

datatype error =
    Exception string
  | FileNotFoundError string
  | UnidentifiedImageError string
  | OSError string
  | IsADirectoryError string

definition digit_char :: "nat \<Rightarrow> char" where
  "digit_char d = ''0123456789'' ! d"

function str_nat :: "nat \<Rightarrow> string" where
  "str_nat n = (if n < 10 then [digit_char n] else str_nat (n div 10) @ [digit_char (n mod 10)])"
  by pat_completeness auto
termination
  by (relation "measure (\<lambda>n. n)") auto

declare str_nat.simps [simp del]

text \<open>What an f-string prints for an int.\<close>

definition str_int :: "int \<Rightarrow> string" where
  "str_int i = (if i < 0 then CHR ''-'' # str_nat (nat (- i)) else str_nat (nat i))"

subsection \<open>Images, drawing and files\<close>

datatype colour = RGB int int int | Named string

datatype font = TrueType string int

text \<open>
  A drawing surface is kept as its size and the chronological list of the operations
  applied to the template it was loaded from.
\<close>

datatype image_op =
    Rotate int
  | DrawText "rat \<times> rat" string colour string font
  | DrawRectangle "(rat \<times> rat) \<times> (rat \<times> rat)" colour

record image =
  width :: int
  height :: int
  history :: "image_op list"

text \<open>
  A saved PDF: the pages and the encoding parameters the script passes, and the creation
  and modification dates, which the imaging library takes from the clock when the script
  passes none.
\<close>

record document =
  pages :: "image list"
  resolution :: int
  subsampling :: int
  quality :: int
  creationDate :: int
  modDate :: int

datatype file_content = ImageFile image | FontFile | PdfFile document

text \<open>
  What a run finds outside the script: the directories, the files, and the clock, given
  as the sequence of its readings together with the number of readings taken so far.
\<close>

record filesystem =
  dirs :: "string set"
  files :: "string \<rightharpoonup> file_content"
  clock :: "nat \<Rightarrow> int"
  ticks :: nat

text \<open>\<^verbatim>\<open>time.gmtime()\<close>: the next reading of the clock.\<close>

definition time_gmtime :: "filesystem \<Rightarrow> int \<times> filesystem" where
  "time_gmtime fs = (clock fs (ticks fs), fs\<lparr>ticks := Suc (ticks fs)\<rparr>)"

definition path_join :: "string \<Rightarrow> string \<Rightarrow> string" where
  "path_join a b =
     (if b \<noteq> [] \<and> hd b = CHR ''/'' then b
      else if a = [] \<or> last a = CHR ''/'' then a @ b
      else a @ ''/'' @ b)"

text \<open>
  \<^verbatim>\<open>os.path.dirname\<close>: the path up to its last slash, without trailing slashes
  unless it consists of slashes only.
\<close>

definition dirname :: "string \<Rightarrow> string" where
  "dirname p =
     (let head = rev (dropWhile (\<lambda>c. c \<noteq> CHR ''/'') (rev p))
      in if head \<noteq> [] \<and> \<not> list_all (\<lambda>c. c = CHR ''/'') head
         then rev (dropWhile (\<lambda>c. c = CHR ''/'') (rev head))
         else head)"

definition asset_directory :: string where
  "asset_directory = ''assets''"

definition image_open :: "filesystem \<Rightarrow> string \<Rightarrow> error + image" where
  "image_open fs path =
     (case files fs path of
        None \<Rightarrow> Inl (FileNotFoundError path)
      | Some (ImageFile im) \<Rightarrow> Inr im
      | Some _ \<Rightarrow> Inl (UnidentifiedImageError path))"

definition truetype :: "filesystem \<Rightarrow> string \<Rightarrow> int \<Rightarrow> error + font" where
  "truetype fs path pt =
     (case files fs path of
        None \<Rightarrow> Inl (OSError ''cannot open resource'')
      | Some FontFile \<Rightarrow> Inr (TrueType path pt)
      | Some _ \<Rightarrow> Inl (OSError ''unknown file format''))"

text \<open>\<^verbatim>\<open>im.rotate(90, expand=True)\<close>: the result has the two dimensions exchanged.\<close>

definition rotate_90_expand :: "image \<Rightarrow> image" where
  "rotate_90_expand im =
     im\<lparr>width := height im, height := width im, history := history im @ [Rotate 90]\<rparr>"

text \<open>\<^verbatim>\<open>im.rotate(180)\<close>: same size.\<close>

definition rotate_180 :: "image \<Rightarrow> image" where
  "rotate_180 im = im\<lparr>history := history im @ [Rotate 180]\<rparr>"

definition draw_text :: "rat \<times> rat \<Rightarrow> string \<Rightarrow> colour \<Rightarrow> string \<Rightarrow> font \<Rightarrow> image \<Rightarrow> image" where
  "draw_text xy s fill anchor fnt im = im\<lparr>history := history im @ [DrawText xy s fill anchor fnt]\<rparr>"

definition draw_rectangle :: "(rat \<times> rat) \<times> (rat \<times> rat) \<Rightarrow> colour \<Rightarrow> image \<Rightarrow> image" where
  "draw_rectangle shape fill im = im\<lparr>history := history im @ [DrawRectangle shape fill]\<rparr>"

text \<open>
  \<^verbatim>\<open>card_list[0].save(pdf_path, save_all=True, append_images=card_list[1:], ...)\<close>:
  the file is opened for writing, which needs the directory of the path (the current
  directory when the path has none) and a path that is not a directory, and replaces
  what was there. The PDF writer then reads the clock once for the creation date and
  once for the modification date.
\<close>

definition save_pdf ::
  "filesystem \<Rightarrow> string \<Rightarrow> image list \<Rightarrow> int \<Rightarrow> int \<Rightarrow> int \<Rightarrow> error + filesystem" where
  "save_pdf fs path card_list res sub q =
     (if dirname path \<noteq> [] \<and> dirname path \<notin> dirs fs then Inl (FileNotFoundError path)
      else if path \<in> dirs fs then Inl (IsADirectoryError path)
      else
        (let created = fst (time_gmtime fs);
             fs1 = snd (time_gmtime fs);
             modified = fst (time_gmtime fs1);
             fs2 = snd (time_gmtime fs1)
         in Inr (fs2\<lparr>files := (files fs2)(path \<mapsto>
                  PdfFile \<lparr>pages = card_list, resolution = res, subsampling = sub, quality = q,
                           creationDate = created, modDate = modified\<rparr>)\<rparr>)))"

subsection \<open>Test pattern specification\<close>

definition test_size :: int where
  "test_size = 25"

definition test_half_size :: int where
  "test_half_size = test_size div 2"

definition test_distance :: int where
  "test_distance = 75"

subsection \<open>How many markers fit, and where the grid starts\<close>

definition matrix_size_x :: "int \<Rightarrow> int" where
  "matrix_size_x print_width = print_width div (test_size + test_distance) - 6"

definition matrix_half_size_x :: "int \<Rightarrow> int" where
  "matrix_half_size_x print_width = matrix_size_x print_width div 2"

definition matrix_size_y :: "int \<Rightarrow> int" where
  "matrix_size_y print_height = print_height div (test_size + test_distance) - 6"

definition matrix_half_size_y :: "int \<Rightarrow> int" where
  "matrix_half_size_y print_height = matrix_size_y print_height div 2"

definition matrix_size_error :: "int \<Rightarrow> error" where
  "matrix_size_error n = Exception (''matrix_size must be greater than 0; received: '' @ str_int n)"

definition start_x :: "int \<Rightarrow> error + rat" where
  "start_x print_width =
     (if matrix_size_x print_width mod 2 > 0 then
        Inr (of_int (print_width div 2)
             - of_int (matrix_half_size_x print_width * test_distance)
             - (of_int (matrix_half_size_x print_width) + 1 / 2) * of_int test_size)
      else if matrix_size_x print_width \<le> 0 then
        Inl (matrix_size_error (matrix_size_x print_width))
      else
        Inr (of_int (print_width div 2)
             - (of_int (matrix_half_size_x print_width) - 1 / 2) * of_int test_distance
             - of_int (matrix_half_size_x print_width * test_size)))"

definition start_y :: "int \<Rightarrow> error + rat" where
  "start_y print_height =
     (if matrix_size_y print_height mod 2 > 0 then
        Inr (of_int (print_height div 2)
             - of_int (matrix_half_size_y print_height * test_distance)
             - (of_int (matrix_half_size_y print_height) + 1 / 2) * of_int test_size)
      else if matrix_size_y print_height \<le> 0 then
        Inl (matrix_size_error (matrix_size_y print_height))
      else
        Inr (of_int (print_height div 2)
             - (of_int (matrix_half_size_y print_height) - 1 / 2) * of_int test_distance
             - of_int (matrix_half_size_y print_height * test_size)))"

text \<open>
  The script computes \<open>start_x\<close> before \<open>start_y\<close>, so an exception of the horizontal
  axis is the one that is raised.
\<close>

definition grid_start :: "int \<Rightarrow> int \<Rightarrow> error + rat \<times> rat" where
  "grid_start print_width print_height =
     (case start_x print_width of
        Inl e \<Rightarrow> Inl e
      | Inr sx \<Rightarrow>
          (case start_y print_height of
             Inl e \<Rightarrow> Inl e
           | Inr sy \<Rightarrow> Inr (sx, sy)))"

subsection \<open>Drawing the calibration pattern\<close>

definition offset_x :: "int \<Rightarrow> int" where
  "offset_x x_index = x_index * (test_distance + test_size)"

definition offset_y :: "int \<Rightarrow> int" where
  "offset_y y_index = y_index * (test_distance + test_size)"

definition front_element_x :: "rat \<Rightarrow> int \<Rightarrow> rat" where
  "front_element_x sx x_index = sx + of_int (offset_x x_index)"

definition front_element_y :: "rat \<Rightarrow> int \<Rightarrow> rat" where
  "front_element_y sy y_index = sy + of_int (offset_y y_index)"

definition front_shape :: "rat \<Rightarrow> rat \<Rightarrow> int \<Rightarrow> int \<Rightarrow> (rat \<times> rat) \<times> (rat \<times> rat)" where
  "front_shape sx sy x_index y_index =
     ((front_element_x sx x_index, front_element_y sy y_index),
      (front_element_x sx x_index + of_int test_size, front_element_y sy y_index + of_int test_size))"

text \<open>Centre cross-hairs in blue, all other markers in black.\<close>

definition marker_fill :: "int \<Rightarrow> int \<Rightarrow> int \<Rightarrow> int \<Rightarrow> colour" where
  "marker_fill print_width print_height x_index y_index =
     (if x_index = matrix_half_size_x print_width \<or> y_index = matrix_half_size_y print_height
      then Named ''blue'' else Named ''black'')"

definition back_element_x :: "int \<Rightarrow> rat \<Rightarrow> int \<Rightarrow> rat" where
  "back_element_x print_width sx x_index =
     front_element_x sx x_index + of_int x_index - of_int (matrix_half_size_x print_width)"

definition back_element_y :: "int \<Rightarrow> rat \<Rightarrow> int \<Rightarrow> rat" where
  "back_element_y print_height sy y_index =
     front_element_y sy y_index + of_int y_index - of_int (matrix_half_size_y print_height)"

definition back_shape :: "int \<Rightarrow> int \<Rightarrow> rat \<Rightarrow> rat \<Rightarrow> int \<Rightarrow> int \<Rightarrow> (rat \<times> rat) \<times> (rat \<times> rat)" where
  "back_shape print_width print_height sx sy x_index y_index =
     ((back_element_x print_width sx x_index, back_element_y print_height sy y_index),
      (back_element_x print_width sx x_index + of_int test_size,
       back_element_y print_height sy y_index + of_int test_size))"

definition coord_label :: "int \<Rightarrow> int \<Rightarrow> int \<Rightarrow> int \<Rightarrow> string" where
  "coord_label print_width print_height x_index y_index =
     ''('' @ str_int (x_index - matrix_half_size_x print_width) @ '', ''
          @ str_int (y_index - matrix_half_size_y print_height) @ '')''"

definition coord_label_xy :: "int \<Rightarrow> int \<Rightarrow> rat \<Rightarrow> rat \<Rightarrow> int \<Rightarrow> int \<Rightarrow> rat \<times> rat" where
  "coord_label_xy print_width print_height sx sy x_index y_index =
     (back_element_x print_width sx x_index + of_int test_half_size,
      back_element_y print_height sy y_index + of_int test_half_size + 30)"

text \<open>The body of the two nested loops: one marker on each page, and the label on the back.\<close>

definition draw_marker ::
  "int \<Rightarrow> int \<Rightarrow> rat \<Rightarrow> rat \<Rightarrow> font \<Rightarrow> int \<Rightarrow> int \<Rightarrow> image \<times> image \<Rightarrow> image \<times> image" where
  "draw_marker print_width print_height sx sy coord_font x_index y_index surfaces =
     (let front_image = fst surfaces;
          back_image = snd surfaces;
          fill = marker_fill print_width print_height x_index y_index
      in (draw_rectangle (front_shape sx sy x_index y_index) fill front_image,
          draw_text (coord_label_xy print_width print_height sx sy x_index y_index)
            (coord_label print_width print_height x_index y_index)
            (Named ''red'') ''mm'' coord_font
            (draw_rectangle (back_shape print_width print_height sx sy x_index y_index) fill
               back_image)))"

text \<open>\<^verbatim>\<open>range(n)\<close> is \<open>[0..n - 1]\<close>, empty when \<open>n \<le> 0\<close>.\<close>

definition draw_pattern ::
  "int \<Rightarrow> int \<Rightarrow> rat \<Rightarrow> rat \<Rightarrow> font \<Rightarrow> image \<times> image \<Rightarrow> image \<times> image" where
  "draw_pattern print_width print_height sx sy coord_font surfaces =
     fold (\<lambda>x_index.
             fold (\<lambda>y_index. draw_marker print_width print_height sx sy coord_font x_index y_index)
                  [0..matrix_size_y print_height - 1])
          [0..matrix_size_x print_width - 1] surfaces"

subsection \<open>One paper size, and the whole run\<close>

text \<open>Lines 12 to 19: the template and the two fonts.\<close>

definition load_assets :: "filesystem \<Rightarrow> string \<Rightarrow> error + image \<times> font \<times> font" where
  "load_assets fs paper_size_value =
     (case image_open fs (path_join asset_directory (paper_size_value @ ''_blank.jpg'')) of
        Inl e \<Rightarrow> Inl e
      | Inr im \<Rightarrow>
          (case truetype fs (path_join asset_directory ''arial.ttf'') 40 of
             Inl e \<Rightarrow> Inl e
           | Inr label_font \<Rightarrow>
               (case truetype fs (path_join asset_directory ''arial.ttf'') 25 of
                  Inl e \<Rightarrow> Inl e
                | Inr coord_font \<Rightarrow> Inr (im, label_font, coord_font))))"

text \<open>Lines 24 to 28: landscape orientation.\<close>

definition orient :: "image \<Rightarrow> image" where
  "orient im = (if height im > width im then rotate_90_expand im else im)"

text \<open>Lines 30 to 38: a copy of the page with its label.\<close>

definition labelled :: "string \<Rightarrow> font \<Rightarrow> image \<Rightarrow> image" where
  "labelled s label_font im =
     draw_text (of_int (width im - 180), of_int (height im - 180)) s (RGB 0 0 0) ''ra'' label_font im"

text \<open>Lines 21 to 103: both pages drawn, or the exception of the grid computation.\<close>

definition render_pages :: "image \<Rightarrow> font \<Rightarrow> font \<Rightarrow> error + image \<times> image" where
  "render_pages template label_font coord_font =
     (let im = orient template;
          print_width = width im;
          print_height = height im;
          front_image = labelled ''front'' label_font im;
          back_image = labelled ''back'' label_font im
      in case grid_start print_width print_height of
           Inl e \<Rightarrow> Inl e
         | Inr s \<Rightarrow>
             Inr (draw_pattern print_width print_height (fst s) (snd s) coord_font
                    (front_image, back_image)))"

definition pdf_path :: "string \<Rightarrow> string" where
  "pdf_path paper_size_value = path_join ''calibration'' (paper_size_value @ ''_calibration.pdf'')"

text \<open>Lines 105 to 110: the two pages and their file.\<close>

definition card_list :: "image \<times> image \<Rightarrow> image list" where
  "card_list surfaces = [fst surfaces, rotate_180 (snd surfaces)]"

definition process_paper_size :: "string \<Rightarrow> filesystem \<Rightarrow> error + filesystem" where
  "process_paper_size paper_size_value fs =
     (case load_assets fs paper_size_value of
        Inl e \<Rightarrow> Inl e
      | Inr assets \<Rightarrow>
          (case render_pages (fst assets) (fst (snd assets)) (snd (snd assets)) of
             Inl e \<Rightarrow> Inl e
           | Inr surfaces \<Rightarrow>
               save_pdf fs (pdf_path paper_size_value) (card_list surfaces) 300 0 100))"

text \<open>
  The loop over the paper sizes. The enumeration \<open>PaperSize\<close> is defined outside this
  script, so the list of its values is a parameter. An exception ends the run; the files
  of the paper sizes before it stay written.
\<close>

fun generate_all :: "string list \<Rightarrow> filesystem \<Rightarrow> filesystem \<times> error option" where
  "generate_all [] fs = (fs, None)"
| "generate_all (paper_size_value # rest) fs =
     (case process_paper_size paper_size_value fs of
        Inl e \<Rightarrow> (fs, Some e)
      | Inr fs' \<Rightarrow> generate_all rest fs')"

subsection \<open>What one marker adds to each page\<close>

definition front_ops :: "int \<Rightarrow> int \<Rightarrow> rat \<Rightarrow> rat \<Rightarrow> int \<Rightarrow> int \<Rightarrow> image_op list" where
  "front_ops print_width print_height sx sy x_index y_index =
     [DrawRectangle (front_shape sx sy x_index y_index)
        (marker_fill print_width print_height x_index y_index)]"

definition back_ops :: "int \<Rightarrow> int \<Rightarrow> rat \<Rightarrow> rat \<Rightarrow> font \<Rightarrow> int \<Rightarrow> int \<Rightarrow> image_op list" where
  "back_ops print_width print_height sx sy coord_font x_index y_index =
     [DrawRectangle (back_shape print_width print_height sx sy x_index y_index)
        (marker_fill print_width print_height x_index y_index),
      DrawText (coord_label_xy print_width print_height sx sy x_index y_index)
        (coord_label print_width print_height x_index y_index) (Named ''red'') ''mm'' coord_font]"

subsection \<open>A file system for examples\<close>

text \<open>Two clocks, a day apart, each advancing by a second per reading.\<close>

definition fixture_clock :: "nat \<Rightarrow> int" where
  "fixture_clock k = 1700000000 + int k"

definition later_clock :: "nat \<Rightarrow> int" where
  "later_clock k = 1700086400 + int k"

text \<open>
  The output directory, the font, and one blank template of the given size for the paper
  size \<open>p\<close>, with the first clock not yet read.
\<close>

definition page_fixture :: "string \<Rightarrow> int \<Rightarrow> int \<Rightarrow> filesystem" where
  "page_fixture p w h =
     \<lparr>dirs = {''calibration''},
      files = [''assets/'' @ p @ ''_blank.jpg'' \<mapsto> ImageFile \<lparr>width = w, height = h, history = []\<rparr>,
               ''assets/arial.ttf'' \<mapsto> FontFile],
      clock = fixture_clock, ticks = 0\<rparr>"

text \<open>
  The two pages the script draws from a portrait template of 700 by 800 pixels: turned to
  800 by 700, the grid has two columns and one row.
\<close>

definition letter_800_700_front :: image where
  "letter_800_700_front =
     \<lparr>width = 800, height = 700,
      history =
        [Rotate 90,
         DrawText (620, 520) ''front'' (RGB 0 0 0) ''ra'' (TrueType ''assets/arial.ttf'' 40),
         DrawRectangle ((675 / 2, 675 / 2), (725 / 2, 725 / 2)) (Named ''blue''),
         DrawRectangle ((875 / 2, 675 / 2), (925 / 2, 725 / 2)) (Named ''blue'')]\<rparr>"

definition letter_800_700_back :: image where
  "letter_800_700_back =
     \<lparr>width = 800, height = 700,
      history =
        [Rotate 90,
         DrawText (620, 520) ''back'' (RGB 0 0 0) ''ra'' (TrueType ''assets/arial.ttf'' 40),
         DrawRectangle ((673 / 2, 675 / 2), (723 / 2, 725 / 2)) (Named ''blue''),
         DrawText (697 / 2, 759 / 2) ''(-1, 0)'' (Named ''red'') ''mm''
           (TrueType ''assets/arial.ttf'' 25),
         DrawRectangle ((875 / 2, 675 / 2), (925 / 2, 725 / 2)) (Named ''blue''),
         DrawText (899 / 2, 759 / 2) ''(0, 0)'' (Named ''red'') ''mm''
           (TrueType ''assets/arial.ttf'' 25)]\<rparr>"

text \<open>The document of these two pages, for given creation and modification dates.\<close>

definition letter_800_700_document :: "int \<Rightarrow> int \<Rightarrow> document" where
  "letter_800_700_document created modified =
     \<lparr>pages = [letter_800_700_front,
               \<lparr>width = 800, height = 700,
                history = history letter_800_700_back @ [Rotate 180]\<rparr>],
      resolution = 300, subsampling = 0, quality = 100,
      creationDate = created, modDate = modified\<rparr>"

text \<open>The same assets found by a run a day later, beside one more directory.\<close>

definition second_run :: filesystem where
  "second_run =
     (page_fixture ''letter'' 700 800)\<lparr>dirs := {''calibration'', ''archive''}, clock := later_clock\<rparr>"

section \<open>Auxiliary facts\<close>

lemmas grid_defs =
  matrix_size_x_def matrix_half_size_x_def matrix_size_y_def matrix_half_size_y_def
  test_size_def test_distance_def test_half_size_def

lemma str_int_0: "str_int 0 = ''0''"
  by (simp add: str_int_def str_nat.simps digit_char_def)

lemma draw_marker_history:
  "draw_marker pw ph sx sy cf x y (f, b) =
     (f\<lparr>history := history f @ front_ops pw ph sx sy x y\<rparr>,
      b\<lparr>history := history b @ back_ops pw ph sx sy cf x y\<rparr>)"
  by (simp add: draw_marker_def draw_rectangle_def draw_text_def front_ops_def back_ops_def Let_def)

text \<open>The inner loop, by induction on the indices still to draw.\<close>

lemma fold_column_history:
  "fold (\<lambda>y. draw_marker pw ph sx sy cf x y) ys (f, b) =
     (f\<lparr>history := history f @ concat (map (front_ops pw ph sx sy x) ys)\<rparr>,
      b\<lparr>history := history b @ concat (map (back_ops pw ph sx sy cf x) ys)\<rparr>)"
proof (induction ys arbitrary: f b)
  case Nil
  show ?case by simp
next
  case (Cons y ys)
  show ?case by (simp add: draw_marker_history Cons.IH)
qed

text \<open>The outer loop.\<close>

lemma fold_grid_history:
  "fold (\<lambda>x. fold (\<lambda>y. draw_marker pw ph sx sy cf x y) ys) xs (f, b) =
     (f\<lparr>history := history f @ concat (map (\<lambda>x. concat (map (front_ops pw ph sx sy x) ys)) xs)\<rparr>,
      b\<lparr>history := history b @ concat (map (\<lambda>x. concat (map (back_ops pw ph sx sy cf x) ys)) xs)\<rparr>)"
proof (induction xs arbitrary: f b)
  case Nil
  show ?case by simp
next
  case (Cons x xs)
  show ?case by (simp add: fold_column_history Cons.IH)
qed

lemma draw_pattern_history:
  "draw_pattern pw ph sx sy cf (f, b) =
     (f\<lparr>history := history f @
          concat (map (\<lambda>x. concat (map (front_ops pw ph sx sy x) [0..matrix_size_y ph - 1]))
                      [0..matrix_size_x pw - 1])\<rparr>,
      b\<lparr>history := history b @
          concat (map (\<lambda>x. concat (map (back_ops pw ph sx sy cf x) [0..matrix_size_y ph - 1]))
                      [0..matrix_size_x pw - 1])\<rparr>)"
  unfolding draw_pattern_def by (rule fold_grid_history)

text \<open>Every index of the grid has its square on both pages and its label on the back.\<close>

lemma marker_drawn:
  assumes "0 \<le> c" "c < matrix_size_x pw" "0 \<le> r" "r < matrix_size_y ph"
  shows "DrawRectangle (front_shape sx sy c r) (marker_fill pw ph c r)
           \<in> set (history (fst (draw_pattern pw ph sx sy cf (f, b))))"
    and "DrawRectangle (back_shape pw ph sx sy c r) (marker_fill pw ph c r)
           \<in> set (history (snd (draw_pattern pw ph sx sy cf (f, b))))"
    and "DrawText (coord_label_xy pw ph sx sy c r) (coord_label pw ph c r) (Named ''red'') ''mm'' cf
           \<in> set (history (snd (draw_pattern pw ph sx sy cf (f, b))))"
proof -
  have c: "c \<in> set [0..matrix_size_x pw - 1]" and r: "r \<in> set [0..matrix_size_y ph - 1]"
    using assms by simp_all
  show "DrawRectangle (front_shape sx sy c r) (marker_fill pw ph c r)
           \<in> set (history (fst (draw_pattern pw ph sx sy cf (f, b))))"
    unfolding draw_pattern_history using c r
    by (fastforce simp: front_ops_def)
  show "DrawRectangle (back_shape pw ph sx sy c r) (marker_fill pw ph c r)
           \<in> set (history (snd (draw_pattern pw ph sx sy cf (f, b))))"
    unfolding draw_pattern_history using c r
    by (fastforce simp: back_ops_def)
  show "DrawText (coord_label_xy pw ph sx sy c r) (coord_label pw ph c r) (Named ''red'') ''mm'' cf
           \<in> set (history (snd (draw_pattern pw ph sx sy cf (f, b))))"
    unfolding draw_pattern_history using c r
    by (fastforce simp: back_ops_def)
qed

lemma dirs_fixture: "dirs (page_fixture p w h) = {''calibration''}"
  by (simp add: page_fixture_def)

lemma load_fixture_letter:
  "load_assets (page_fixture ''letter'' w h) ''letter'' =
     Inr (\<lparr>width = w, height = h, history = []\<rparr>,
          TrueType ''assets/arial.ttf'' 40, TrueType ''assets/arial.ttf'' 25)"
  by (simp add: load_assets_def page_fixture_def image_open_def truetype_def path_join_def
      asset_directory_def)

lemma load_fixture_a4:
  "load_assets (page_fixture ''a4'' w h) ''a4'' =
     Inr (\<lparr>width = w, height = h, history = []\<rparr>,
          TrueType ''assets/arial.ttf'' 40, TrueType ''assets/arial.ttf'' 25)"
  by (simp add: load_assets_def page_fixture_def image_open_def truetype_def path_join_def
      asset_directory_def)

lemma pdf_path_plain:
  "p = [] \<or> hd p \<noteq> CHR ''/'' \<Longrightarrow> pdf_path p = ''calibration/'' @ p @ ''_calibration.pdf''"
  by (cases p) (simp_all add: pdf_path_def path_join_def)

lemma pdf_path_letter: "pdf_path ''letter'' = ''calibration/letter_calibration.pdf''"
  by (simp add: pdf_path_def path_join_def)

lemma dirname_letter: "dirname ''calibration/letter_calibration.pdf'' = ''calibration''"
  by (simp add: dirname_def)

lemma save_pdf_Inr:
  assumes "save_pdf fs path imgs res sub q = Inr fs'"
  shows "fs' = fs\<lparr>ticks := Suc (Suc (ticks fs)),
                   files := (files fs)(path \<mapsto>
                     PdfFile \<lparr>pages = imgs, resolution = res, subsampling = sub, quality = q,
                              creationDate = clock fs (ticks fs),
                              modDate = clock fs (Suc (ticks fs))\<rparr>)\<rparr>"
  using assms
  by (auto simp add: save_pdf_def time_gmtime_def Let_def split: if_splits)

lemma save_pdf_fixture:
  "save_pdf (page_fixture p w h) (pdf_path ''letter'') imgs res sub q =
     Inr ((page_fixture p w h)\<lparr>ticks := 2,
            files := (files (page_fixture p w h))(''calibration/letter_calibration.pdf'' \<mapsto>
              PdfFile \<lparr>pages = imgs, resolution = res, subsampling = sub, quality = q,
                       creationDate = 1700000000, modDate = 1700000001\<rparr>)\<rparr>)"
  by (simp add: save_pdf_def pdf_path_letter dirname_letter time_gmtime_def Let_def
      page_fixture_def fixture_clock_def)

lemma process_paper_size_Inr:
  assumes "process_paper_size p fs = Inr fs'"
  shows "\<exists>template label_font coord_font front_image back_image.
           load_assets fs p = Inr (template, label_font, coord_font)
         \<and> render_pages template label_font coord_font = Inr (front_image, back_image)
         \<and> fs' = fs\<lparr>ticks := Suc (Suc (ticks fs)),
                     files := (files fs)(pdf_path p \<mapsto>
                       PdfFile \<lparr>pages = [front_image, back_image\<lparr>history := history back_image @ [Rotate 180]\<rparr>],
                                resolution = 300, subsampling = 0, quality = 100,
                                creationDate = clock fs (ticks fs),
                                modDate = clock fs (Suc (ticks fs))\<rparr>)\<rparr>"
proof -
  from assms obtain template label_font coord_font where
    l: "load_assets fs p = Inr (template, label_font, coord_font)"
    by (auto simp add: process_paper_size_def split: sum.splits)
  from assms l obtain front_image back_image where
    r: "render_pages template label_font coord_font = Inr (front_image, back_image)"
    by (auto simp add: process_paper_size_def split: sum.splits)
  from assms l r have
    "save_pdf fs (pdf_path p) [front_image, back_image\<lparr>history := history back_image @ [Rotate 180]\<rparr>]
       300 0 100 = Inr fs'"
    by (simp add: process_paper_size_def card_list_def rotate_180_def)
  from save_pdf_Inr [OF this] l r show ?thesis by blast
qed

text \<open>Loading reads the template and the font, and nothing else.\<close>

lemma load_assets_cong:
  assumes "files fs1 (path_join asset_directory (p @ ''_blank.jpg''))
             = files fs2 (path_join asset_directory (p @ ''_blank.jpg''))"
      and "files fs1 (path_join asset_directory ''arial.ttf'')
             = files fs2 (path_join asset_directory ''arial.ttf'')"
  shows "load_assets fs1 p = load_assets fs2 p"
proof -
  have "image_open fs1 (path_join asset_directory (p @ ''_blank.jpg''))
          = image_open fs2 (path_join asset_directory (p @ ''_blank.jpg''))"
    by (simp only: image_open_def assms(1))
  moreover have "truetype fs1 (path_join asset_directory ''arial.ttf'') pt
          = truetype fs2 (path_join asset_directory ''arial.ttf'') pt" for pt
    by (simp only: truetype_def assms(2))
  ultimately show ?thesis
    by (simp only: load_assets_def)
qed

lemma render_pages_Inr:
  assumes "render_pages template label_font coord_font = Inr (front_image, back_image)"
  shows "\<exists>sx sy. grid_start (width (orient template)) (height (orient template)) = Inr (sx, sy)
     \<and> (front_image, back_image) =
         draw_pattern (width (orient template)) (height (orient template)) sx sy coord_font
           (labelled ''front'' label_font (orient template),
            labelled ''back'' label_font (orient template))"
  using assms
  by (auto simp add: render_pages_def Let_def split: sum.splits)

lemmas draw_defs =
  front_ops_def back_ops_def front_shape_def back_shape_def front_element_x_def front_element_y_def
  back_element_x_def back_element_y_def offset_x_def offset_y_def marker_fill_def
  coord_label_def coord_label_xy_def str_int_def str_nat.simps digit_char_def

lemma render_800_700:
  "render_pages \<lparr>width = 700, height = 800, history = []\<rparr>
     (TrueType ''assets/arial.ttf'' 40) (TrueType ''assets/arial.ttf'' 25)
   = Inr (letter_800_700_front, letter_800_700_back)"
  by (simp add: render_pages_def orient_def rotate_90_expand_def labelled_def draw_text_def
      grid_start_def start_x_def start_y_def grid_defs draw_pattern_history upto.simps draw_defs
      letter_800_700_front_def letter_800_700_back_def)

section \<open>The grid planner\<close>

text \<open>
  C4. Scenario A: on a page of 1000 by 700 pixels the planner finds 4 columns and 1 row;
  the horizontal start is the value of the even-count formula (and not of the odd-count
  one), the vertical start is the value of the odd-count formula (and not of the
  even-count one): each axis takes the branch of its own parity.
\<close>

theorem scenario_A_parity_per_axis:
  "matrix_size_x 1000 = 4 \<and> matrix_size_y 700 = 1
   \<and> matrix_half_size_x 1000 = 2 \<and> matrix_half_size_y 700 = 0
   \<and> start_x 1000 = Inr (of_int (1000 div 2) - (of_int (matrix_half_size_x 1000) - 1 / 2) * 75
                          - of_int (matrix_half_size_x 1000) * 25)
   \<and> start_x 1000 \<noteq> Inr (of_int (1000 div 2) - of_int (matrix_half_size_x 1000) * 75
                          - (of_int (matrix_half_size_x 1000) + 1 / 2) * 25)
   \<and> start_y 700 = Inr (of_int (700 div 2) - of_int (matrix_half_size_y 700) * 75
                          - (of_int (matrix_half_size_y 700) + 1 / 2) * 25)
   \<and> start_y 700 \<noteq> Inr (of_int (700 div 2) - (of_int (matrix_half_size_y 700) - 1 / 2) * 75
                          - of_int (matrix_half_size_y 700) * 25)
   \<and> grid_start 1000 700 = Inr (675 / 2, 675 / 2)"
  by (simp add: grid_start_def start_x_def start_y_def grid_defs)

text \<open>
  C1 as stated fails: a page 600 pixels wide has the even count 0, and the script raises
  instead of computing a start coordinate from the even-count formula.
\<close>

theorem even_count_zero_has_no_start:
  "even (matrix_size_x 600)
   \<and> start_x 600 \<noteq> Inr (of_int (600 div 2) - (of_int (matrix_half_size_x 600) - 1 / 2) * 75
                         - of_int (matrix_half_size_x 600) * 25)
   \<and> start_x 600 = Inl (Exception ''matrix_size must be greater than 0; received: 0'')"
  by (simp add: start_x_def grid_defs matrix_size_error_def str_int_0)

text \<open>
  C1 (amended). For every page width and height, on each axis the marker count is
  \<open>dimension div (25 + 75) - 6\<close> and its half is \<open>count div 2\<close>. With the page centre
  \<open>dimension div 2\<close>, when the count is greater than 0 the start coordinate is
  \<open>centre - half * 75 - (half + 1/2) * 25\<close> for an odd count and
  \<open>centre - (half - 1/2) * 75 - half * 25\<close> for an even count. When the count is even
  and at most 0 there is no start coordinate: the axis raises the exception
  \<open>matrix_size must be greater than 0; received: <count>\<close>. Where both axes have a
  start, these two are the start of the grid; an exception of the horizontal axis is the
  result whatever the vertical axis gives.
\<close>

theorem grid_start_by_parity:
  "matrix_size_x w = w div (25 + 75) - 6 \<and> matrix_half_size_x w = matrix_size_x w div 2
   \<and> matrix_size_y h = h div (25 + 75) - 6 \<and> matrix_half_size_y h = matrix_size_y h div 2
   \<and> (odd (matrix_size_x w) \<and> 0 < matrix_size_x w \<longrightarrow>
        start_x w = Inr (of_int (w div 2) - of_int (matrix_half_size_x w) * 75
                         - (of_int (matrix_half_size_x w) + 1 / 2) * 25))
   \<and> (even (matrix_size_x w) \<and> 0 < matrix_size_x w \<longrightarrow>
        start_x w = Inr (of_int (w div 2) - (of_int (matrix_half_size_x w) - 1 / 2) * 75
                         - of_int (matrix_half_size_x w) * 25))
   \<and> (even (matrix_size_x w) \<and> matrix_size_x w \<le> 0 \<longrightarrow>
        start_x w = Inl (Exception (''matrix_size must be greater than 0; received: ''
                                     @ str_int (matrix_size_x w))))
   \<and> (odd (matrix_size_y h) \<and> 0 < matrix_size_y h \<longrightarrow>
        start_y h = Inr (of_int (h div 2) - of_int (matrix_half_size_y h) * 75
                         - (of_int (matrix_half_size_y h) + 1 / 2) * 25))
   \<and> (even (matrix_size_y h) \<and> 0 < matrix_size_y h \<longrightarrow>
        start_y h = Inr (of_int (h div 2) - (of_int (matrix_half_size_y h) - 1 / 2) * 75
                         - of_int (matrix_half_size_y h) * 25))
   \<and> (even (matrix_size_y h) \<and> matrix_size_y h \<le> 0 \<longrightarrow>
        start_y h = Inl (Exception (''matrix_size must be greater than 0; received: ''
                                     @ str_int (matrix_size_y h))))
   \<and> (start_x w = Inr sx \<and> start_y h = Inr sy \<longrightarrow> grid_start w h = Inr (sx, sy))
   \<and> (start_x w = Inl e \<longrightarrow> grid_start w h = Inl e)"
proof -
  have counts: "matrix_size_x w = w div (25 + 75) - 6 \<and> matrix_half_size_x w = matrix_size_x w div 2
      \<and> matrix_size_y h = h div (25 + 75) - 6 \<and> matrix_half_size_y h = matrix_size_y h div 2"
    by (simp add: grid_defs)
  have x: "(odd (matrix_size_x w) \<and> 0 < matrix_size_x w \<longrightarrow>
        start_x w = Inr (of_int (w div 2) - of_int (matrix_half_size_x w) * 75
                         - (of_int (matrix_half_size_x w) + 1 / 2) * 25))
   \<and> (even (matrix_size_x w) \<and> 0 < matrix_size_x w \<longrightarrow>
        start_x w = Inr (of_int (w div 2) - (of_int (matrix_half_size_x w) - 1 / 2) * 75
                         - of_int (matrix_half_size_x w) * 25))
   \<and> (even (matrix_size_x w) \<and> matrix_size_x w \<le> 0 \<longrightarrow>
        start_x w = Inl (Exception (''matrix_size must be greater than 0; received: ''
                                     @ str_int (matrix_size_x w))))"
    by (auto simp add: start_x_def odd_iff_mod_2_eq_one test_size_def test_distance_def
        matrix_size_error_def)
  have y: "(odd (matrix_size_y h) \<and> 0 < matrix_size_y h \<longrightarrow>
        start_y h = Inr (of_int (h div 2) - of_int (matrix_half_size_y h) * 75
                         - (of_int (matrix_half_size_y h) + 1 / 2) * 25))
   \<and> (even (matrix_size_y h) \<and> 0 < matrix_size_y h \<longrightarrow>
        start_y h = Inr (of_int (h div 2) - (of_int (matrix_half_size_y h) - 1 / 2) * 75
                         - of_int (matrix_half_size_y h) * 25))
   \<and> (even (matrix_size_y h) \<and> matrix_size_y h \<le> 0 \<longrightarrow>
        start_y h = Inl (Exception (''matrix_size must be greater than 0; received: ''
                                     @ str_int (matrix_size_y h))))"
    by (auto simp add: start_y_def odd_iff_mod_2_eq_one test_size_def test_distance_def
        matrix_size_error_def)
  have g: "(start_x w = Inr sx \<and> start_y h = Inr sy \<longrightarrow> grid_start w h = Inr (sx, sy))
      \<and> (start_x w = Inl e \<longrightarrow> grid_start w h = Inl e)"
    by (simp add: grid_start_def)
  from counts x y g show ?thesis by blast
qed

text \<open>
  Three pages: 3508 by 2480 (29 columns, odd; 18 rows, even), 2480 by 1748 (18 columns,
  even; 11 rows, odd), and 450 by 620 (-2 columns and 0 rows, both raising).
\<close>

theorem grid_start_by_parity_witness:
  "odd (matrix_size_x 3508) \<and> 0 < matrix_size_x 3508
   \<and> even (matrix_size_y 2480) \<and> 0 < matrix_size_y 2480
   \<and> start_x 3508 = Inr (683 / 2) \<and> start_y 2480 = Inr (755 / 2)
   \<and> grid_start 3508 2480 = Inr (683 / 2, 755 / 2)
   \<and> even (matrix_size_x 2480) \<and> 0 < matrix_size_x 2480
   \<and> odd (matrix_size_y 1748) \<and> 0 < matrix_size_y 1748
   \<and> start_x 2480 = Inr (755 / 2) \<and> start_y 1748 = Inr (723 / 2)
   \<and> grid_start 2480 1748 = Inr (755 / 2, 723 / 2)
   \<and> even (matrix_size_x 450) \<and> matrix_size_x 450 \<le> 0
   \<and> even (matrix_size_y 620) \<and> matrix_size_y 620 \<le> 0
   \<and> start_x 450 = Inl (Exception ''matrix_size must be greater than 0; received: -2'')
   \<and> start_y 620 = Inl (Exception ''matrix_size must be greater than 0; received: 0'')
   \<and> grid_start 450 620 = Inl (Exception ''matrix_size must be greater than 0; received: -2'')"
  using grid_start_by_parity [of 3508 2480 "683 / 2" "755 / 2"
      "Exception ''matrix_size must be greater than 0; received: -2''"]
    grid_start_by_parity [of 2480 1748 "755 / 2" "723 / 2"
      "Exception ''matrix_size must be greater than 0; received: -2''"]
    grid_start_by_parity [of 450 620 0 0
      "Exception ''matrix_size must be greater than 0; received: -2''"]
  by (simp add: grid_defs str_int_def str_nat.simps digit_char_def)

section \<open>The marker renderer\<close>

text \<open>
  C2. For every grid index \<open>(c, r)\<close> with \<open>0 \<le> c < columns\<close> and
  \<open>0 \<le> r < rows\<close>, the marker is drawn at \<open>front_shape\<close> on the front page and at
  \<open>back_shape\<close> on the back page, and the back position minus the front position is
  exactly \<open>(c - half_columns, r - half_rows)\<close>, for both corners of the square and on
  each axis by itself.
\<close>

theorem back_offset_is_index_distance:
  assumes "0 \<le> c" "c < matrix_size_x pw" "0 \<le> r" "r < matrix_size_y ph"
  shows "DrawRectangle (front_shape sx sy c r) (marker_fill pw ph c r)
           \<in> set (history (fst (draw_pattern pw ph sx sy cf (f, b))))
       \<and> DrawRectangle (back_shape pw ph sx sy c r) (marker_fill pw ph c r)
           \<in> set (history (snd (draw_pattern pw ph sx sy cf (f, b))))
       \<and> fst (fst (back_shape pw ph sx sy c r)) - fst (fst (front_shape sx sy c r))
           = of_int (c - matrix_half_size_x pw)
       \<and> snd (fst (back_shape pw ph sx sy c r)) - snd (fst (front_shape sx sy c r))
           = of_int (r - matrix_half_size_y ph)
       \<and> fst (snd (back_shape pw ph sx sy c r)) - fst (snd (front_shape sx sy c r))
           = of_int (c - matrix_half_size_x pw)
       \<and> snd (snd (back_shape pw ph sx sy c r)) - snd (snd (front_shape sx sy c r))
           = of_int (r - matrix_half_size_y ph)"
proof -
  have "fst (fst (back_shape pw ph sx sy c r)) - fst (fst (front_shape sx sy c r))
           = of_int (c - matrix_half_size_x pw)"
    and "snd (fst (back_shape pw ph sx sy c r)) - snd (fst (front_shape sx sy c r))
           = of_int (r - matrix_half_size_y ph)"
    and "fst (snd (back_shape pw ph sx sy c r)) - fst (snd (front_shape sx sy c r))
           = of_int (c - matrix_half_size_x pw)"
    and "snd (snd (back_shape pw ph sx sy c r)) - snd (snd (front_shape sx sy c r))
           = of_int (r - matrix_half_size_y ph)"
    by (simp_all add: back_shape_def front_shape_def back_element_x_def back_element_y_def)
  with marker_drawn(1,2) [OF assms] show ?thesis by blast
qed

text \<open>The last column of the 1000 by 700 page: one pixel to the right on the back.\<close>

theorem back_offset_is_index_distance_witness:
  "(0::int) \<le> 3 \<and> 3 < matrix_size_x 1000 \<and> (0::int) \<le> 0 \<and> 0 < matrix_size_y 700
   \<and> DrawRectangle (front_shape (675 / 2) (675 / 2) 3 0) (marker_fill 1000 700 3 0)
        \<in> set (history (fst (draw_pattern 1000 700 (675 / 2) (675 / 2) (TrueType ''assets/arial.ttf'' 25)
             (\<lparr>width = 1000, height = 700, history = []\<rparr>,
              \<lparr>width = 1000, height = 700, history = []\<rparr>))))
   \<and> DrawRectangle (back_shape 1000 700 (675 / 2) (675 / 2) 3 0) (marker_fill 1000 700 3 0)
        \<in> set (history (snd (draw_pattern 1000 700 (675 / 2) (675 / 2) (TrueType ''assets/arial.ttf'' 25)
             (\<lparr>width = 1000, height = 700, history = []\<rparr>,
              \<lparr>width = 1000, height = 700, history = []\<rparr>))))
   \<and> front_shape (675 / 2) (675 / 2) 3 0 = ((1275 / 2, 675 / 2), (1325 / 2, 725 / 2))
   \<and> back_shape 1000 700 (675 / 2) (675 / 2) 3 0 = ((1277 / 2, 675 / 2), (1327 / 2, 725 / 2))
   \<and> 3 - matrix_half_size_x 1000 = 1 \<and> 0 - matrix_half_size_y 700 = 0"
proof -
  have h: "(0::int) \<le> 3" "3 < matrix_size_x 1000" "(0::int) \<le> 0" "0 < matrix_size_y 700"
    by (simp_all add: grid_defs)
  have shapes: "front_shape (675 / 2) (675 / 2) 3 0 = ((1275 / 2, 675 / 2), (1325 / 2, 725 / 2))"
    "back_shape 1000 700 (675 / 2) (675 / 2) 3 0 = ((1277 / 2, 675 / 2), (1327 / 2, 725 / 2))"
    "3 - matrix_half_size_x 1000 = 1" "0 - matrix_half_size_y 700 = 0"
    by (simp_all add: front_shape_def back_shape_def front_element_x_def front_element_y_def
        back_element_x_def back_element_y_def offset_x_def offset_y_def grid_defs)
  from back_offset_is_index_distance [OF h, of "675 / 2" "675 / 2" "TrueType ''assets/arial.ttf'' 25"
      "\<lparr>width = 1000, height = 700, history = []\<rparr>" "\<lparr>width = 1000, height = 700, history = []\<rparr>"]
    h shapes
  show ?thesis by blast
qed

text \<open>
  C5. On the centre column (\<open>c = half_columns\<close>) the horizontal component of the back
  offset is exactly 0, on the centre row (\<open>r = half_rows\<close>) the vertical component is
  exactly 0, and at the crosshair the back square is the front square.
\<close>

theorem crosshair_offset_zero:
  "(c = matrix_half_size_x pw \<longrightarrow> back_element_x pw sx c - front_element_x sx c = 0)
   \<and> (r = matrix_half_size_y ph \<longrightarrow> back_element_y ph sy r - front_element_y sy r = 0)
   \<and> (c = matrix_half_size_x pw \<and> r = matrix_half_size_y ph \<longrightarrow>
        back_shape pw ph sx sy c r = front_shape sx sy c r)"
  by (simp add: back_shape_def front_shape_def back_element_x_def back_element_y_def)

text \<open>The crosshair of the 1000 by 700 page is the marker of index \<open>(2, 0)\<close>.\<close>

theorem crosshair_offset_zero_witness:
  "2 = matrix_half_size_x 1000 \<and> 0 = matrix_half_size_y 700
   \<and> back_element_x 1000 (675 / 2) 2 - front_element_x (675 / 2) 2 = 0
   \<and> back_element_y 700 (675 / 2) 0 - front_element_y (675 / 2) 0 = 0
   \<and> back_shape 1000 700 (675 / 2) (675 / 2) 2 0 = front_shape (675 / 2) (675 / 2) 2 0
   \<and> front_shape (675 / 2) (675 / 2) 2 0 = ((1075 / 2, 675 / 2), (1125 / 2, 725 / 2))"
proof -
  have h: "2 = matrix_half_size_x 1000" "0 = matrix_half_size_y 700"
    by (simp_all add: grid_defs)
  have s: "front_shape (675 / 2) (675 / 2) 2 0 = ((1075 / 2, 675 / 2), (1125 / 2, 725 / 2))"
    by (simp add: front_shape_def front_element_x_def front_element_y_def offset_x_def offset_y_def
        grid_defs)
  from crosshair_offset_zero [of 2 1000 "675 / 2" 0 700 "675 / 2"] h s
  show ?thesis by blast
qed

text \<open>
  C6. The loop body for the index \<open>(col, row)\<close> draws one square on the front page and
  one on the back page, both in the same colour; that colour is the accent colour (blue)
  if and only if \<open>col = half_columns\<close> or \<open>row = half_rows\<close>, and the base colour
  (black) otherwise.
\<close>

theorem crosshair_fill:
  "draw_marker pw ph sx sy cf c r (f, b) =
     (f\<lparr>history := history f @
          [DrawRectangle (front_shape sx sy c r) (marker_fill pw ph c r)]\<rparr>,
      b\<lparr>history := history b @
          [DrawRectangle (back_shape pw ph sx sy c r) (marker_fill pw ph c r),
           DrawText (coord_label_xy pw ph sx sy c r) (coord_label pw ph c r)
             (Named ''red'') ''mm'' cf]\<rparr>)
   \<and> (marker_fill pw ph c r = Named ''blue'' \<longleftrightarrow>
        c = matrix_half_size_x pw \<or> r = matrix_half_size_y ph)
   \<and> (marker_fill pw ph c r = Named ''black'' \<longleftrightarrow>
        c \<noteq> matrix_half_size_x pw \<and> r \<noteq> matrix_half_size_y ph)"
  by (simp add: draw_marker_history front_ops_def back_ops_def marker_fill_def)

text \<open>
  A page of 900 by 800 pixels has 3 columns and 2 rows with the centre index \<open>(1, 1)\<close>:
  the corners \<open>(0, 0)\<close> and \<open>(2, 0)\<close> are black, \<open>(1, 0)\<close> and \<open>(0, 1)\<close> are blue.
\<close>

theorem crosshair_fill_witness:
  "marker_fill 900 800 0 0 = Named ''black'' \<and> marker_fill 900 800 1 0 = Named ''blue''
   \<and> marker_fill 900 800 0 1 = Named ''blue'' \<and> marker_fill 900 800 2 0 = Named ''black''
   \<and> matrix_half_size_x 900 = 1 \<and> matrix_half_size_y 800 = 1"
  using crosshair_fill [of 900 800 0 0 "TrueType ''assets/arial.ttf'' 25" 0 0
      "\<lparr>width = 900, height = 800, history = []\<rparr>" "\<lparr>width = 900, height = 800, history = []\<rparr>"]
    crosshair_fill [of 900 800 0 0 "TrueType ''assets/arial.ttf'' 25" 1 0
      "\<lparr>width = 900, height = 800, history = []\<rparr>" "\<lparr>width = 900, height = 800, history = []\<rparr>"]
    crosshair_fill [of 900 800 0 0 "TrueType ''assets/arial.ttf'' 25" 0 1
      "\<lparr>width = 900, height = 800, history = []\<rparr>" "\<lparr>width = 900, height = 800, history = []\<rparr>"]
    crosshair_fill [of 900 800 0 0 "TrueType ''assets/arial.ttf'' 25" 2 0
      "\<lparr>width = 900, height = 800, history = []\<rparr>" "\<lparr>width = 900, height = 800, history = []\<rparr>"]
  by (simp add: grid_defs)

text \<open>
  C10. On each axis, two back markers of adjacent indices are exactly
  \<open>marker_size + spacing + 1 = 101\<close> pixels apart, against 100 on the front; the
  difference between back and front grows by exactly 1 per index step, and the back grid
  is the front grid stretched about the centre index.
\<close>

theorem back_grid_pitch:
  "back_element_x pw sx (i + 1) - back_element_x pw sx i = of_int (test_size + test_distance + 1)
   \<and> back_element_y ph sy (j + 1) - back_element_y ph sy j = of_int (test_size + test_distance + 1)
   \<and> of_int (test_size + test_distance + 1) = (101 :: rat)
   \<and> front_element_x sx (i + 1) - front_element_x sx i = 100
   \<and> front_element_y sy (j + 1) - front_element_y sy j = 100
   \<and> (back_element_x pw sx (i + 1) - front_element_x sx (i + 1))
       - (back_element_x pw sx i - front_element_x sx i) = 1
   \<and> (back_element_y ph sy (j + 1) - front_element_y sy (j + 1))
       - (back_element_y ph sy j - front_element_y sy j) = 1
   \<and> back_element_x pw sx i
       = front_element_x sx (matrix_half_size_x pw) + 101 * of_int (i - matrix_half_size_x pw)
   \<and> back_element_y ph sy j
       = front_element_y sy (matrix_half_size_y ph) + 101 * of_int (j - matrix_half_size_y ph)"
  by (simp add: back_element_x_def back_element_y_def front_element_x_def front_element_y_def
      offset_x_def offset_y_def test_size_def test_distance_def algebra_simps)

section \<open>The page composer\<close>

text \<open>
  C7. For every paper size that is processed successfully, the file system afterwards
  differs from the one before in exactly one file: a document of two pages, the first
  being the front surface (the oriented template with the label front and the grid) and
  the second the back surface with a rotation by 180 degrees applied last and its size
  unchanged, saved with resolution 300, subsampling 0 and quality 100 under the path
  joined from the directory calibration and the name of the paper size followed by
  \<open>_calibration.pdf\<close>, whatever was stored there before. For a paper size name that
  does not begin with a slash this path is \<open>calibration/<papersize>_calibration.pdf\<close>.
\<close>

theorem one_two_page_document:
  assumes "process_paper_size p fs = Inr fs'"
  shows "\<exists>template label_font coord_font sx sy front_image back_image.
           load_assets fs p = Inr (template, label_font, coord_font)
         \<and> grid_start (width (orient template)) (height (orient template)) = Inr (sx, sy)
         \<and> (front_image, back_image) =
             draw_pattern (width (orient template)) (height (orient template)) sx sy coord_font
               (labelled ''front'' label_font (orient template),
                labelled ''back'' label_font (orient template))
         \<and> dirs fs' = dirs fs
         \<and> files fs' = (files fs)(path_join ''calibration'' (p @ ''_calibration.pdf'') \<mapsto>
               PdfFile \<lparr>pages = [front_image,
                                 \<lparr>width = width back_image, height = height back_image,
                                  history = history back_image @ [Rotate 180]\<rparr>],
                        resolution = 300, subsampling = 0, quality = 100,
                        creationDate = clock fs (ticks fs),
                        modDate = clock fs (Suc (ticks fs))\<rparr>)
         \<and> (p = [] \<or> hd p \<noteq> CHR ''/'' \<longrightarrow>
               path_join ''calibration'' (p @ ''_calibration.pdf'')
                 = ''calibration/'' @ p @ ''_calibration.pdf'')"
proof -
  from process_paper_size_Inr [OF assms]
  obtain template label_font coord_font front_image back_image where
    l: "load_assets fs p = Inr (template, label_font, coord_font)" and
    r: "render_pages template label_font coord_font = Inr (front_image, back_image)" and
    f: "fs' = fs\<lparr>ticks := Suc (Suc (ticks fs)),
                  files := (files fs)(pdf_path p \<mapsto>
                    PdfFile \<lparr>pages = [front_image, back_image\<lparr>history := history back_image @ [Rotate 180]\<rparr>],
                             resolution = 300, subsampling = 0, quality = 100,
                             creationDate = clock fs (ticks fs),
                             modDate = clock fs (Suc (ticks fs))\<rparr>)\<rparr>"
    by blast
  from render_pages_Inr [OF r]
  obtain sx sy where
    g: "grid_start (width (orient template)) (height (orient template)) = Inr (sx, sy)" and
    d: "(front_image, back_image) =
         draw_pattern (width (orient template)) (height (orient template)) sx sy coord_font
           (labelled ''front'' label_font (orient template),
            labelled ''back'' label_font (orient template))"
    by blast
  have rotated: "back_image\<lparr>history := history back_image @ [Rotate 180]\<rparr>
      = \<lparr>width = width back_image, height = height back_image,
         history = history back_image @ [Rotate 180]\<rparr>"
    by (cases back_image) simp
  have dirs: "dirs fs' = dirs fs"
    using f by simp
  have files: "files fs' = (files fs)(path_join ''calibration'' (p @ ''_calibration.pdf'') \<mapsto>
               PdfFile \<lparr>pages = [front_image,
                                 \<lparr>width = width back_image, height = height back_image,
                                  history = history back_image @ [Rotate 180]\<rparr>],
                        resolution = 300, subsampling = 0, quality = 100,
                        creationDate = clock fs (ticks fs),
                        modDate = clock fs (Suc (ticks fs))\<rparr>)"
    using f rotated by (simp add: pdf_path_def)
  have path: "p = [] \<or> hd p \<noteq> CHR ''/'' \<longrightarrow>
               path_join ''calibration'' (p @ ''_calibration.pdf'')
                 = ''calibration/'' @ p @ ''_calibration.pdf''"
    using pdf_path_plain [of p] by (simp add: pdf_path_def)
  from l g d dirs files path show ?thesis by blast
qed

text \<open>
  The paper size letter with a portrait template of 700 by 800 pixels: the front page
  listed above and the back page with the rotation by 180 degrees at the end of its
  history are saved as \<open>calibration/letter_calibration.pdf\<close>.
\<close>

theorem one_two_page_document_witness:
  "process_paper_size ''letter'' (page_fixture ''letter'' 700 800) =
     Inr ((page_fixture ''letter'' 700 800)\<lparr>ticks := 2,
            files := (files (page_fixture ''letter'' 700 800))
              (''calibration/letter_calibration.pdf'' \<mapsto>
                 PdfFile \<lparr>pages = [letter_800_700_front,
                                   \<lparr>width = 800, height = 700,
                                    history = history letter_800_700_back @ [Rotate 180]\<rparr>],
                          resolution = 300, subsampling = 0, quality = 100,
                          creationDate = 1700000000, modDate = 1700000001\<rparr>)\<rparr>)
   \<and> files ((page_fixture ''letter'' 700 800)\<lparr>ticks := 2,
            files := (files (page_fixture ''letter'' 700 800))
              (''calibration/letter_calibration.pdf'' \<mapsto>
                 PdfFile \<lparr>pages = [letter_800_700_front,
                                   \<lparr>width = 800, height = 700,
                                    history = history letter_800_700_back @ [Rotate 180]\<rparr>],
                          resolution = 300, subsampling = 0, quality = 100,
                          creationDate = 1700000000, modDate = 1700000001\<rparr>)\<rparr>)
       = (files (page_fixture ''letter'' 700 800))
            (''calibration/'' @ ''letter'' @ ''_calibration.pdf'' \<mapsto>
               PdfFile \<lparr>pages = [letter_800_700_front,
                                 \<lparr>width = 800, height = 700,
                                  history = history letter_800_700_back @ [Rotate 180]\<rparr>],
                        resolution = 300, subsampling = 0, quality = 100,
                        creationDate = 1700000000, modDate = 1700000001\<rparr>)
   \<and> last (history letter_800_700_back @ [Rotate 180]) = Rotate 180"
proof -
  have h: "process_paper_size ''letter'' (page_fixture ''letter'' 700 800) =
     Inr ((page_fixture ''letter'' 700 800)\<lparr>ticks := 2,
            files := (files (page_fixture ''letter'' 700 800))
              (''calibration/letter_calibration.pdf'' \<mapsto>
                 PdfFile \<lparr>pages = [letter_800_700_front,
                                   \<lparr>width = 800, height = 700,
                                    history = history letter_800_700_back @ [Rotate 180]\<rparr>],
                          resolution = 300, subsampling = 0, quality = 100,
                          creationDate = 1700000000, modDate = 1700000001\<rparr>)\<rparr>)"
    by (simp add: process_paper_size_def load_fixture_letter render_800_700 save_pdf_fixture
        card_list_def rotate_180_def letter_800_700_back_def)
  from one_two_page_document [OF h] h show ?thesis
    by simp
qed

section \<open>Two runs on the same assets\<close>

text \<open>
  C9 as stated fails. Two runs for the paper size letter find the same directories and
  the same files, the template and the font among them, and differ only in the clock,
  which is a day later in the second: the two documents written differ, in their
  creation and modification dates.
\<close>

theorem same_assets_different_documents:
  "dirs ((page_fixture ''letter'' 700 800)\<lparr>clock := later_clock\<rparr>)
     = dirs (page_fixture ''letter'' 700 800)
   \<and> files ((page_fixture ''letter'' 700 800)\<lparr>clock := later_clock\<rparr>)
     = files (page_fixture ''letter'' 700 800)
   \<and> process_paper_size ''letter'' (page_fixture ''letter'' 700 800) =
       Inr ((page_fixture ''letter'' 700 800)\<lparr>ticks := 2,
            files := (files (page_fixture ''letter'' 700 800))
              (''calibration/letter_calibration.pdf'' \<mapsto>
                 PdfFile \<lparr>pages = [letter_800_700_front,
                                   \<lparr>width = 800, height = 700,
                                    history = history letter_800_700_back @ [Rotate 180]\<rparr>],
                          resolution = 300, subsampling = 0, quality = 100,
                          creationDate = 1700000000, modDate = 1700000001\<rparr>)\<rparr>)
   \<and> process_paper_size ''letter'' ((page_fixture ''letter'' 700 800)\<lparr>clock := later_clock\<rparr>) =
       Inr ((page_fixture ''letter'' 700 800)\<lparr>clock := later_clock, ticks := 2,
            files := (files (page_fixture ''letter'' 700 800))
              (''calibration/letter_calibration.pdf'' \<mapsto>
                 PdfFile \<lparr>pages = [letter_800_700_front,
                                   \<lparr>width = 800, height = 700,
                                    history = history letter_800_700_back @ [Rotate 180]\<rparr>],
                          resolution = 300, subsampling = 0, quality = 100,
                          creationDate = 1700086400, modDate = 1700086401\<rparr>)\<rparr>)
   \<and> \<lparr>pages = [letter_800_700_front,
                \<lparr>width = 800, height = 700,
                 history = history letter_800_700_back @ [Rotate 180]\<rparr>],
       resolution = 300, subsampling = 0, quality = 100,
       creationDate = 1700000000, modDate = 1700000001\<rparr>
     \<noteq> \<lparr>pages = [letter_800_700_front,
                \<lparr>width = 800, height = 700,
                 history = history letter_800_700_back @ [Rotate 180]\<rparr>],
       resolution = 300, subsampling = 0, quality = 100,
       creationDate = 1700086400, modDate = 1700086401\<rparr>"
proof -
  have load: "load_assets ((page_fixture ''letter'' 700 800)\<lparr>clock := later_clock\<rparr>) ''letter''
      = load_assets (page_fixture ''letter'' 700 800) ''letter''"
    by (rule load_assets_cong) simp_all
  have save: "save_pdf ((page_fixture ''letter'' 700 800)\<lparr>clock := later_clock\<rparr>)
        (pdf_path ''letter'') imgs 300 0 100 =
     Inr ((page_fixture ''letter'' 700 800)\<lparr>clock := later_clock, ticks := 2,
            files := (files (page_fixture ''letter'' 700 800))
              (''calibration/letter_calibration.pdf'' \<mapsto>
                 PdfFile \<lparr>pages = imgs, resolution = 300, subsampling = 0, quality = 100,
                          creationDate = 1700086400, modDate = 1700086401\<rparr>)\<rparr>)" for imgs
    by (simp add: save_pdf_def pdf_path_letter dirname_letter time_gmtime_def Let_def
        page_fixture_def later_clock_def)
  show ?thesis
    by (simp add: process_paper_size_def load load_fixture_letter render_800_700
        save_pdf_fixture save card_list_def rotate_180_def letter_800_700_back_def)
qed

text \<open>
  C9 (amended). Two runs for a paper size whose file systems agree on the template and on
  the font, and which both write their document, write documents with the same pages,
  resolution, subsampling and quality: the rendered content holds no time and nothing
  random. Each document also holds the creation and the modification date read from the
  clock of its run at the save, so the two documents are identical exactly when those
  readings agree.
\<close>

theorem same_assets_same_pages:
  assumes "files fs1 (path_join asset_directory (p @ ''_blank.jpg''))
             = files fs2 (path_join asset_directory (p @ ''_blank.jpg''))"
      and "files fs1 (path_join asset_directory ''arial.ttf'')
             = files fs2 (path_join asset_directory ''arial.ttf'')"
      and "process_paper_size p fs1 = Inr fs1'"
      and "process_paper_size p fs2 = Inr fs2'"
  shows "\<exists>d1 d2. files fs1' (pdf_path p) = Some (PdfFile d1)
         \<and> files fs2' (pdf_path p) = Some (PdfFile d2)
         \<and> pages d1 = pages d2 \<and> resolution d1 = resolution d2
         \<and> subsampling d1 = subsampling d2 \<and> quality d1 = quality d2
         \<and> creationDate d1 = clock fs1 (ticks fs1) \<and> modDate d1 = clock fs1 (Suc (ticks fs1))
         \<and> creationDate d2 = clock fs2 (ticks fs2) \<and> modDate d2 = clock fs2 (Suc (ticks fs2))
         \<and> (d1 = d2 \<longleftrightarrow>
              clock fs1 (ticks fs1) = clock fs2 (ticks fs2)
              \<and> clock fs1 (Suc (ticks fs1)) = clock fs2 (Suc (ticks fs2)))"
proof -
  from process_paper_size_Inr [OF assms(3)]
  obtain template label_font coord_font front_image back_image where
    l1: "load_assets fs1 p = Inr (template, label_font, coord_font)" and
    r1: "render_pages template label_font coord_font = Inr (front_image, back_image)" and
    f1: "fs1' = fs1\<lparr>ticks := Suc (Suc (ticks fs1)),
                  files := (files fs1)(pdf_path p \<mapsto>
                    PdfFile \<lparr>pages = [front_image, back_image\<lparr>history := history back_image @ [Rotate 180]\<rparr>],
                             resolution = 300, subsampling = 0, quality = 100,
                             creationDate = clock fs1 (ticks fs1),
                             modDate = clock fs1 (Suc (ticks fs1))\<rparr>)\<rparr>"
    by blast
  from process_paper_size_Inr [OF assms(4)]
  obtain template2 label_font2 coord_font2 front_image2 back_image2 where
    l2: "load_assets fs2 p = Inr (template2, label_font2, coord_font2)" and
    r2: "render_pages template2 label_font2 coord_font2 = Inr (front_image2, back_image2)" and
    f2: "fs2' = fs2\<lparr>ticks := Suc (Suc (ticks fs2)),
                  files := (files fs2)(pdf_path p \<mapsto>
                    PdfFile \<lparr>pages = [front_image2, back_image2\<lparr>history := history back_image2 @ [Rotate 180]\<rparr>],
                             resolution = 300, subsampling = 0, quality = 100,
                             creationDate = clock fs2 (ticks fs2),
                             modDate = clock fs2 (Suc (ticks fs2))\<rparr>)\<rparr>"
    by blast
  from load_assets_cong [OF assms(1,2)] l1 l2
  have "template2 = template" "label_font2 = label_font" "coord_font2 = coord_font"
    by simp_all
  with r1 r2 have same: "front_image2 = front_image" "back_image2 = back_image"
    by simp_all
  let ?d1 = "\<lparr>pages = [front_image, back_image\<lparr>history := history back_image @ [Rotate 180]\<rparr>],
             resolution = 300, subsampling = 0, quality = 100,
             creationDate = clock fs1 (ticks fs1), modDate = clock fs1 (Suc (ticks fs1))\<rparr>"
  let ?d2 = "\<lparr>pages = [front_image, back_image\<lparr>history := history back_image @ [Rotate 180]\<rparr>],
             resolution = 300, subsampling = 0, quality = 100,
             creationDate = clock fs2 (ticks fs2), modDate = clock fs2 (Suc (ticks fs2))\<rparr>"
  have w1: "files fs1' (pdf_path p) = Some (PdfFile ?d1)"
    using f1 by simp
  have w2: "files fs2' (pdf_path p) = Some (PdfFile ?d2)"
    using f2 same by simp
  have rest: "pages ?d1 = pages ?d2 \<and> resolution ?d1 = resolution ?d2
         \<and> subsampling ?d1 = subsampling ?d2 \<and> quality ?d1 = quality ?d2
         \<and> creationDate ?d1 = clock fs1 (ticks fs1) \<and> modDate ?d1 = clock fs1 (Suc (ticks fs1))
         \<and> creationDate ?d2 = clock fs2 (ticks fs2) \<and> modDate ?d2 = clock fs2 (Suc (ticks fs2))
         \<and> (?d1 = ?d2 \<longleftrightarrow>
              clock fs1 (ticks fs1) = clock fs2 (ticks fs2)
              \<and> clock fs1 (Suc (ticks fs1)) = clock fs2 (Suc (ticks fs2)))"
    by simp
  from w1 w2 rest show ?thesis by blast
qed

text \<open>
  The first run is the letter fixture; the second has one more directory and the later
  clock. Both write the same two pages; the dates, and so the documents, differ.
\<close>

theorem same_assets_same_pages_witness:
  "files (page_fixture ''letter'' 700 800) (path_join asset_directory (''letter'' @ ''_blank.jpg''))
     = files second_run (path_join asset_directory (''letter'' @ ''_blank.jpg''))
   \<and> files (page_fixture ''letter'' 700 800) (path_join asset_directory ''arial.ttf'')
     = files second_run (path_join asset_directory ''arial.ttf'')
   \<and> process_paper_size ''letter'' (page_fixture ''letter'' 700 800) =
       Inr ((page_fixture ''letter'' 700 800)\<lparr>ticks := 2,
            files := (files (page_fixture ''letter'' 700 800))
              (''calibration/letter_calibration.pdf'' \<mapsto>
                 PdfFile (letter_800_700_document 1700000000 1700000001))\<rparr>)
   \<and> process_paper_size ''letter'' second_run =
       Inr (second_run\<lparr>ticks := 2,
            files := (files second_run)
              (''calibration/letter_calibration.pdf'' \<mapsto>
                 PdfFile (letter_800_700_document 1700086400 1700086401))\<rparr>)
   \<and> pages (letter_800_700_document 1700000000 1700000001)
       = pages (letter_800_700_document 1700086400 1700086401)
   \<and> letter_800_700_document 1700000000 1700000001
       \<noteq> letter_800_700_document 1700086400 1700086401
   \<and> clock (page_fixture ''letter'' 700 800) (ticks (page_fixture ''letter'' 700 800))
       \<noteq> clock second_run (ticks second_run)"
proof -
  have a1: "files (page_fixture ''letter'' 700 800) (path_join asset_directory (''letter'' @ ''_blank.jpg''))
     = files second_run (path_join asset_directory (''letter'' @ ''_blank.jpg''))"
    and a2: "files (page_fixture ''letter'' 700 800) (path_join asset_directory ''arial.ttf'')
     = files second_run (path_join asset_directory ''arial.ttf'')"
    by (simp_all add: second_run_def)
  have h1: "process_paper_size ''letter'' (page_fixture ''letter'' 700 800) =
       Inr ((page_fixture ''letter'' 700 800)\<lparr>ticks := 2,
            files := (files (page_fixture ''letter'' 700 800))
              (''calibration/letter_calibration.pdf'' \<mapsto>
                 PdfFile (letter_800_700_document 1700000000 1700000001))\<rparr>)"
    by (simp add: process_paper_size_def load_fixture_letter render_800_700 save_pdf_fixture
        card_list_def rotate_180_def letter_800_700_back_def letter_800_700_document_def)
  have load: "load_assets second_run ''letter''
      = load_assets (page_fixture ''letter'' 700 800) ''letter''"
    using load_assets_cong [OF a1 a2] by simp
  have save: "save_pdf second_run (pdf_path ''letter'') imgs 300 0 100 =
     Inr (second_run\<lparr>ticks := 2,
            files := (files second_run)
              (''calibration/letter_calibration.pdf'' \<mapsto>
                 PdfFile \<lparr>pages = imgs, resolution = 300, subsampling = 0, quality = 100,
                          creationDate = 1700086400, modDate = 1700086401\<rparr>)\<rparr>)" for imgs
    by (simp add: save_pdf_def pdf_path_letter dirname_letter time_gmtime_def Let_def
        second_run_def page_fixture_def later_clock_def)
  have h2: "process_paper_size ''letter'' second_run =
       Inr (second_run\<lparr>ticks := 2,
            files := (files second_run)
              (''calibration/letter_calibration.pdf'' \<mapsto>
                 PdfFile (letter_800_700_document 1700086400 1700086401))\<rparr>)"
    by (simp add: process_paper_size_def load load_fixture_letter render_800_700 save
        card_list_def rotate_180_def letter_800_700_back_def letter_800_700_document_def)
  have c: "clock (page_fixture ''letter'' 700 800) (ticks (page_fixture ''letter'' 700 800))
       \<noteq> clock second_run (ticks second_run)"
    by (simp add: second_run_def page_fixture_def fixture_clock_def later_clock_def)
  from same_assets_same_pages [OF a1 a2 h1 h2] a1 a2 h1 h2 c show ?thesis
    by (simp add: letter_800_700_document_def)
qed

section \<open>Grids that do not fit\<close>

text \<open>
  C3 as stated fails. The paper size letter with a page of 1000 by 600 pixels raises at
  the guard of the vertical axis (4 columns, 0 rows), the paper size a4 with a page of
  650 by 650 pixels raises at the guard of the horizontal axis (0 columns): the two
  errors are the same value, which carries the count and names neither the axis nor the
  paper size.
\<close>

theorem error_names_neither_axis_nor_paper_size:
  "process_paper_size ''letter'' (page_fixture ''letter'' 1000 600)
     = Inl (Exception ''matrix_size must be greater than 0; received: 0'')
   \<and> process_paper_size ''a4'' (page_fixture ''a4'' 650 650)
     = Inl (Exception ''matrix_size must be greater than 0; received: 0'')
   \<and> 0 < matrix_size_x 1000 \<and> matrix_size_y 600 \<le> 0 \<and> matrix_size_x 650 \<le> 0"
  by (simp add: process_paper_size_def load_fixture_letter load_fixture_a4 render_pages_def
      orient_def grid_start_def start_x_def start_y_def grid_defs matrix_size_error_def str_int_0)

text \<open>
  C3 (amended). Once the assets of a paper size are loaded: if the column count of the
  oriented page is even and at most 0, the paper size fails with the exception
  \<open>matrix_size must be greater than 0; received: <count>\<close> for the column count;
  if that does not happen and the row count is even and at most 0, it fails with the
  same exception for the row count. The error carries the count only. Nothing is drawn
  or written for that paper size, and the run ends there with the file system as it was.
\<close>

theorem even_nonpositive_count_raises:
  assumes "load_assets fs p = Inr (template, label_font, coord_font)"
  shows "(even (matrix_size_x (width (orient template)))
            \<and> matrix_size_x (width (orient template)) \<le> 0 \<longrightarrow>
            process_paper_size p fs =
              Inl (Exception (''matrix_size must be greater than 0; received: ''
                 @ str_int (matrix_size_x (width (orient template)))))
          \<and> generate_all (p # rest) fs =
              (fs, Some (Exception (''matrix_size must be greater than 0; received: ''
                 @ str_int (matrix_size_x (width (orient template)))))))
       \<and> (\<not> (even (matrix_size_x (width (orient template)))
                \<and> matrix_size_x (width (orient template)) \<le> 0)
          \<and> even (matrix_size_y (height (orient template)))
          \<and> matrix_size_y (height (orient template)) \<le> 0 \<longrightarrow>
            process_paper_size p fs =
              Inl (Exception (''matrix_size must be greater than 0; received: ''
                 @ str_int (matrix_size_y (height (orient template)))))
          \<and> generate_all (p # rest) fs =
              (fs, Some (Exception (''matrix_size must be greater than 0; received: ''
                 @ str_int (matrix_size_y (height (orient template)))))))"
proof -
  let ?w = "width (orient template)" and ?h = "height (orient template)"
  have x: "grid_start ?w ?h = Inl (matrix_size_error (matrix_size_x ?w))"
    if "even (matrix_size_x ?w)" "matrix_size_x ?w \<le> 0"
    using that by (simp add: grid_start_def start_x_def)
  have y: "grid_start ?w ?h = Inl (matrix_size_error (matrix_size_y ?h))"
    if "\<not> (even (matrix_size_x ?w) \<and> matrix_size_x ?w \<le> 0)"
       "even (matrix_size_y ?h)" "matrix_size_y ?h \<le> 0"
    using that by (auto simp add: grid_start_def start_x_def start_y_def odd_iff_mod_2_eq_one)
  have p: "process_paper_size p fs = Inl e \<and> generate_all (p # rest) fs = (fs, Some e)"
    if "grid_start ?w ?h = Inl e" for e
    using that assms by (simp add: process_paper_size_def render_pages_def Let_def)
  show ?thesis
    using x y p by (simp add: matrix_size_error_def)
qed

text \<open>
  A page of 1100 by 600 pixels (5 columns, 0 rows) fails on the vertical axis, and the
  paper size after it is not reached; a page of 450 by 450 pixels (-2 columns) fails on
  the horizontal axis.
\<close>

theorem even_nonpositive_count_raises_witness:
  "load_assets (page_fixture ''letter'' 1100 600) ''letter''
     = Inr (\<lparr>width = 1100, height = 600, history = []\<rparr>,
            TrueType ''assets/arial.ttf'' 40, TrueType ''assets/arial.ttf'' 25)
   \<and> odd (matrix_size_x 1100) \<and> matrix_size_y 600 = 0
   \<and> process_paper_size ''letter'' (page_fixture ''letter'' 1100 600)
       = Inl (Exception ''matrix_size must be greater than 0; received: 0'')
   \<and> generate_all [''letter'', ''a4''] (page_fixture ''letter'' 1100 600)
       = (page_fixture ''letter'' 1100 600,
          Some (Exception ''matrix_size must be greater than 0; received: 0''))
   \<and> matrix_size_x 450 = - 2
   \<and> process_paper_size ''a4'' (page_fixture ''a4'' 450 450)
       = Inl (Exception ''matrix_size must be greater than 0; received: -2'')
   \<and> generate_all [''a4''] (page_fixture ''a4'' 450 450)
       = (page_fixture ''a4'' 450 450,
          Some (Exception ''matrix_size must be greater than 0; received: -2''))"
  using even_nonpositive_count_raises [OF load_fixture_letter, of 1100 600 "[''a4'']"]
    even_nonpositive_count_raises [OF load_fixture_a4, of 450 450 "[]"]
  by (simp add: load_fixture_letter orient_def grid_defs str_int_def str_nat.simps digit_char_def)

text \<open>
  C8. The claim asks that a count of at most 0 on an axis fails the paper size and leaves
  no file. On a page of 1000 by 500 pixels the row count is -1, which is odd: the guard
  sits in the even branch only and is not reached, no marker is drawn, and the two
  labelled pages without a grid are saved as \<open>calibration/letter_calibration.pdf\<close>.
\<close>

theorem odd_nonpositive_count_writes_empty_grid:
  "matrix_size_y 500 = - 1
   \<and> process_paper_size ''letter'' (page_fixture ''letter'' 1000 500) =
       Inr ((page_fixture ''letter'' 1000 500)\<lparr>ticks := 2,
         files := (files (page_fixture ''letter'' 1000 500))
         (''calibration/letter_calibration.pdf'' \<mapsto> PdfFile
            \<lparr>pages =
               [\<lparr>width = 1000, height = 500,
                 history = [DrawText (820, 320) ''front'' (RGB 0 0 0) ''ra''
                              (TrueType ''assets/arial.ttf'' 40)]\<rparr>,
                \<lparr>width = 1000, height = 500,
                 history = [DrawText (820, 320) ''back'' (RGB 0 0 0) ''ra''
                              (TrueType ''assets/arial.ttf'' 40),
                            Rotate 180]\<rparr>],
             resolution = 300, subsampling = 0, quality = 100,
             creationDate = 1700000000, modDate = 1700000001\<rparr>)\<rparr>)"
  by (simp add: process_paper_size_def load_fixture_letter render_pages_def orient_def labelled_def
      draw_text_def grid_start_def start_x_def start_y_def grid_defs draw_pattern_history upto.simps
      save_pdf_fixture card_list_def rotate_180_def)

end
